theory Spec2Isabelle
  imports Complex_Main
begin

section \<open>Bloch-sphere pulse trajectories\<close>

text \<open>
  The effect body of \<open>PulseControl\<close> in \<open>src/components/PulseControl.tsx\<close>. JavaScript numbers
  are modelled by the reals, so \<open>Math.cos\<close>, \<open>Math.sin\<close> and \<open>Math.PI\<close> are
  \<open>cos\<close>, \<open>sin\<close> and \<open>pi\<close>, and rounding of the binary floating-point format is
  left out.
\<close>

record vec3 =
  vx :: real
  vy :: real
  vz :: real

record screenPoint =
  cx :: real
  cy :: real

definition width :: real where "width = 500"

definition height :: real where "height = 400"

definition radius :: real where "radius = 120"

definition centerX :: real where "centerX = width / 2"

definition centerY :: real where "centerY = height / 2"

text \<open>
  \<open>project\<close>: a rotation about the vertical axis, a tilt, and the shift to the centre of the
  drawing.
\<close>

definition project :: "real \<Rightarrow> real \<Rightarrow> real \<Rightarrow> screenPoint" where
  "project x y z =
     (let tilt = 0.4;
          rot = 0.5;
          x1 = x * cos rot - z * sin rot;
          z1 = x * sin rot + z * cos rot;
          y2 = y * cos tilt - z1 * sin tilt
      in \<lparr> cx = centerX + x1, cy = centerY + y2 \<rparr>)"

definition startVec :: vec3 where
  "startVec = \<lparr> vx = 0, vy = - radius, vz = 0 \<rparr>"

text \<open>
  \<open>rotate\<close>: the Rodrigues formula for an axis \<open>(cos axisAngle, 0, sin axisAngle)\<close> in the
  x-z plane.
\<close>

definition rotate :: "vec3 \<Rightarrow> real \<Rightarrow> real \<Rightarrow> vec3" where
  "rotate v axisAngle theta =
     (let ax = cos axisAngle;
          az = sin axisAngle;
          c = cos theta;
          s = sin theta;
          dot = vx v * ax + vz v * az;
          crossX = - az * vy v;
          crossY = az * vx v - ax * vz v;
          crossZ = ax * vy v
      in \<lparr> vx = vx v * c + crossX * s + ax * dot * (1 - c),
           vy = vy v * c + crossY * s + 0,
           vz = vz v * c + crossZ * s + az * dot * (1 - c) \<rparr>)"

text \<open>
  The single pulse. Each iteration of the loop \<open>for (i = 0; i <= simpleSteps; i++)\<close> first
  pushes the projection of \<open>currentSimple\<close> and only then replaces \<open>currentSimple\<close>
  by the start vector rotated by \<open>simpleTotalAngle * (i / simpleSteps)\<close>. The state of the
  loop is the pair of \<open>currentSimple\<close> and the list of points pushed so far.
  \<open>endSimple\<close> is \<open>simplePoints[simplePoints.length - 1]\<close>; the list has
  \<open>simpleSteps + 1\<close> elements, so it is never empty.
\<close>

definition simpleSteps :: nat where "simpleSteps = 20"

definition simpleTotalAngle :: "real \<Rightarrow> real" where
  "simpleTotalAngle errorRate = pi * (1 + errorRate)"

fun simpleLoop :: "real \<Rightarrow> nat list \<Rightarrow> vec3 \<times> screenPoint list \<Rightarrow> vec3 \<times> screenPoint list" where
  "simpleLoop totalAngle [] st = st"
| "simpleLoop totalAngle (i # rest) (currentSimple, simplePoints) =
     simpleLoop totalAngle rest
       (rotate startVec 0 (totalAngle * (real i / real simpleSteps)),
        simplePoints @ [project (vx currentSimple) (vy currentSimple) (vz currentSimple)])"

definition simplePoints :: "real \<Rightarrow> screenPoint list" where
  "simplePoints errorRate =
     snd (simpleLoop (simpleTotalAngle errorRate) [0 ..< simpleSteps + 1] (startVec, []))"

definition endSimple :: "real \<Rightarrow> screenPoint" where
  "endSimple errorRate = last (simplePoints errorRate)"

text \<open>
  The vector whose projection the last iteration pushes: it was computed by the iteration
  before, with \<open>i = simpleSteps - 1\<close>.
\<close>

definition simpleEndVec :: "real \<Rightarrow> vec3" where
  "simpleEndVec errorRate =
     rotate startVec 0 (simpleTotalAngle errorRate * (real (simpleSteps - 1) / real simpleSteps))"

text \<open>
  The composite pulse. \<open>addPath\<close> pushes onto the shared list \<open>scrofulousPoints\<close>,
  which is passed in and returned here; every sample of a leg is rotated from the start of
  that leg, and the leg returns its last sample. The variable \<open>curr\<close> of the source is
  \<open>currV\<close>.
\<close>

fun addPathLoop ::
  "nat \<Rightarrow> real \<Rightarrow> real \<Rightarrow> vec3 \<Rightarrow> nat list \<Rightarrow> vec3 \<times> screenPoint list \<Rightarrow> vec3 \<times> screenPoint list" where
  "addPathLoop steps angle axisPhase start [] st = st"
| "addPathLoop steps angle axisPhase start (i # rest) (currV, scrofulousPoints) =
     (let nextV = rotate start axisPhase (angle * (real i / real steps))
      in addPathLoop steps angle axisPhase start rest
           (nextV, scrofulousPoints @ [project (vx nextV) (vy nextV) (vz nextV)]))"

definition addPath ::
  "nat \<Rightarrow> real \<Rightarrow> real \<Rightarrow> vec3 \<Rightarrow> screenPoint list \<Rightarrow> vec3 \<times> screenPoint list" where
  "addPath steps angle axisPhase start scrofulousPoints =
     addPathLoop steps angle axisPhase start [1 ..< steps + 1] (start, scrofulousPoints)"

definition scrofulous :: "real \<Rightarrow> vec3 \<times> screenPoint list" where
  "scrofulous errorRate =
     (let scale = 1 + errorRate;
          toRad = pi / 180;
          theta1 = 180 * toRad * scale;
          phi1 = 60 * toRad;
          theta2 = 360 * toRad * scale;
          phi2 = 300 * toRad;
          theta3 = 180 * toRad * scale;
          phi3 = 60 * toRad;
          currentScrof0 = startVec;
          points0 = [project (vx currentScrof0) (vy currentScrof0) (vz currentScrof0)];
          (currentScrof1, points1) = addPath 15 theta1 phi1 currentScrof0 points0;
          (currentScrof2, points2) = addPath 25 theta2 phi2 currentScrof1 points1;
          (currentScrof3, points3) = addPath 15 theta3 phi3 currentScrof2 points2
      in (currentScrof3, points3))"

definition endScrof :: "real \<Rightarrow> screenPoint" where
  "endScrof errorRate = last (snd (scrofulous errorRate))"

text \<open>
  The target pole, and the Euclidean norm and distance used to state the properties.
\<close>

definition targetVec :: vec3 where
  "targetVec = \<lparr> vx = 0, vy = radius, vz = 0 \<rparr>"

definition normSq :: "vec3 \<Rightarrow> real" where
  "normSq v = vx v * vx v + vy v * vy v + vz v * vz v"

definition vnorm :: "vec3 \<Rightarrow> real" where
  "vnorm v = sqrt (normSq v)"

definition dist3 :: "vec3 \<Rightarrow> vec3 \<Rightarrow> real" where
  "dist3 a b = sqrt ((vx a - vx b)\<^sup>2 + (vy a - vy b)\<^sup>2 + (vz a - vz b)\<^sup>2)"

section \<open>Statistical curve generators\<close>

text \<open>
  \<open>toFixed digits v\<close> is \<open>parseFloat(v.toFixed(digits))\<close>: the decimal with
  \<open>digits\<close> places nearest to \<open>v\<close>, a tie going away from zero (the sign is
  split off first and the larger candidate is taken for the magnitude).
\<close>

definition toFixed :: "nat \<Rightarrow> real \<Rightarrow> real" where
  "toFixed digits v =
     (if v < 0 then - (of_int \<lfloor>- v * 10 ^ digits + 1 / 2\<rfloor> / 10 ^ digits)
      else of_int \<lfloor>v * 10 ^ digits + 1 / 2\<rfloor> / 10 ^ digits)"


definition js_pow :: "real \<Rightarrow> real \<Rightarrow> real" where
  "js_pow b e = (if e = 0 then 1 else if 0 \<le> b then b powr e else b powi \<lfloor>e\<rfloor>)"

text \<open>
  The numbers of \<open>generateDecayData\<close> can leave the reals, so they are modelled with
  their special values: \<open>Fin r\<close> is the finite number \<open>r\<close> (\<open>Fin 0\<close> is the positive zero),
  \<open>NegZero\<close> the negative zero, \<open>PInf\<close> and \<open>NInf\<close> the two infinities. Finite
  arithmetic is exact, without rounding, overflow or underflow; the special values follow
  the rules of the language for \<open>*\<close>, \<open>/\<close>, \<open>+\<close>, \<open>-\<close>, \<open>Math.exp\<close> and
  \<open>Math.pow\<close>.
\<close>

datatype jsnum = Fin real | NegZero | PInf | NInf | NaN















text \<open>
  \<open>toFixedJ digits v\<close> is \<open>parseFloat(v.toFixed(digits))\<close>: \<open>toFixed\<close> prints NaN and the
  infinities by name and \<open>parseFloat\<close> reads them back; the negative zero prints without
  its sign, and a negative number that rounds to zero keeps it.
\<close>

fun toFixedJ :: "nat \<Rightarrow> jsnum \<Rightarrow> jsnum" where
  "toFixedJ digits (Fin v) =
     (if v < 0 \<and> toFixed digits v = 0 then NegZero else Fin (toFixed digits v))"
| "toFixedJ digits NegZero = Fin 0"
| "toFixedJ digits PInf = PInf"
| "toFixedJ digits NInf = NInf"
| "toFixedJ digits NaN = NaN"




text \<open>
  \<open>finite_val a r\<close>: the number \<open>a\<close> is finite with the value \<open>r\<close>.
\<close>

definition finite_val :: "jsnum \<Rightarrow> real \<Rightarrow> bool" where
  "finite_val a r = (a = Fin r \<or> (a = NegZero \<and> r = 0))"

text \<open>
  A stream of draws that returns the same number at every call.
\<close>

definition fixedRandom :: "real \<Rightarrow> nat \<Rightarrow> real" where
  "fixedRandom r n = r"

text \<open>
  \<open>generateRBData\<close>. A record of the result is either a scatter point
  \<open>{length, y, type: 'scatter', category}\<close> or a point of the fitted curves
  \<open>{length, standard_fit, irb_fit, type: 'line'}\<close>; a field that a record does not have
  reads as \<open>None\<close>. The body of \<open>lengths.forEach\<close> is \<open>rbStep\<close>, whose state is
  the array \<open>data\<close> (here \<open>dataV\<close>) and the number of draws made so far. The final
  \<open>sort\<close> compares the lengths and is stable, as \<open>sort_key\<close> is.
\<close>

datatype rbMode = ModeStandard | ModeIrb

datatype rbCategory = Standard | IRB

datatype rbRecord =
    Scatter nat real rbCategory
  | Line nat real "real option"

fun len :: "rbRecord \<Rightarrow> nat" where
  "len (Scatter m yv c) = m"
| "len (Line m sf irf) = m"

fun isLine :: "rbRecord \<Rightarrow> bool" where
  "isLine (Scatter m yv c) = False"
| "isLine (Line m sf irf) = True"

fun standard_fit :: "rbRecord \<Rightarrow> real option" where
  "standard_fit (Scatter m yv c) = None"
| "standard_fit (Line m sf irf) = Some sf"

fun irb_fit :: "rbRecord \<Rightarrow> real option" where
  "irb_fit (Scatter m yv c) = None"
| "irb_fit (Line m sf irf) = irf"

definition lengths :: "nat list" where
  "lengths = [2, 10, 20, 40, 80, 150, 300, 500]"

definition sequencesPerLength :: nat where "sequencesPerLength = 30"

definition p_standard :: real where "p_standard = 0.9985"

definition p_irb :: real where "p_irb = 0.9985 * 0.9995"

definition avgProbStd :: "nat \<Rightarrow> real" where
  "avgProbStd m = 0.5 + 0.5 * js_pow p_standard (real m)"

definition avgProbIrb :: "nat \<Rightarrow> real" where
  "avgProbIrb m = 0.5 + 0.5 * js_pow p_irb (real m)"

definition rbStep :: "rbMode \<Rightarrow> (nat \<Rightarrow> real) \<Rightarrow> nat \<Rightarrow> rbRecord list \<times> nat \<Rightarrow> rbRecord list \<times> nat" where
  "rbStep mode random m st =
     (let dataV = fst st;
          drawn = snd st;
          variance = 0.05 * (1 - exp (- real m / 100));
          scatter =
            (if mode = ModeStandard then
               map (\<lambda>i. Scatter m (toFixed 4 (min 1 (max 0 (avgProbStd m + (random (drawn + i) - 0.5) * variance * 2)))) Standard)
                   [0 ..< sequencesPerLength]
             else
               map (\<lambda>i. Scatter m (toFixed 4 (min 1 (max 0 (avgProbIrb m + (random (drawn + i) - 0.5) * variance * 2)))) IRB)
                   [0 ..< sequencesPerLength])
      in (dataV @ scatter
            @ [Line m (toFixed 4 (avgProbStd m)) (if mode = ModeIrb then Some (toFixed 4 (avgProbIrb m)) else None)],
          drawn + sequencesPerLength))"

definition generateRBData :: "rbMode \<Rightarrow> (nat \<Rightarrow> real) \<Rightarrow> rbRecord list" where
  "generateRBData mode random = sort_key len (fst (fold (rbStep mode random) lengths ([], 0)))"

text \<open>
  The records that one iteration appends, and the fitted-curve record among them.
\<close>

definition rbBlock :: "rbMode \<Rightarrow> (nat \<Rightarrow> real) \<Rightarrow> nat \<Rightarrow> nat \<Rightarrow> rbRecord list" where
  "rbBlock mode random m drawn = fst (rbStep mode random m ([], drawn))"

definition lineFor :: "rbMode \<Rightarrow> nat \<Rightarrow> rbRecord" where
  "lineFor mode m = Line m (toFixed 4 (avgProbStd m)) (if mode = ModeIrb then Some (toFixed 4 (avgProbIrb m)) else None)"

section \<open>Transport phase engine\<close>

text \<open>
  The body of \<open>animate\<close> in \<open>TransportSimulation\<close>, from the normalised cycle time
  \<open>t\<close> on. The four stage labels are the strings \<open>Handover (SLM -> AOD)\<close>,
  \<open>Diagonal Transport\<close>, \<open>Handover (AOD -> SLM)\<close> and \<open>Resetting...\<close>.
  \<open>easeCubicInOut\<close> is the function of that name of the d3-ease library.
\<close>

datatype stageLabel = HandoverSlmToAod | DiagonalTransport | HandoverAodToSlm | Resetting

record transportState =
  slmPower :: real
  aodPower :: real
  x :: real
  stage :: stageLabel

definition startX :: real where "startX = 100"

definition endX :: real where "endX = 700"

definition yPos :: real where "yPos = 120"

definition easeCubicInOut :: "real \<Rightarrow> real" where
  "easeCubicInOut t = (if 2 * t \<le> 1 then (2 * t) * (2 * t) * (2 * t) else (2 * t - 2) * (2 * t - 2) * (2 * t - 2) + 2) / 2"

definition frame :: "real \<Rightarrow> transportState" where
  "frame t =
     (if t < 0.15 then
        (let subT = t / 0.15
         in \<lparr> slmPower = 1 - subT, aodPower = subT, x = startX, stage = HandoverSlmToAod \<rparr>)
      else if t < 0.75 then
        (let subT = (t - 0.15) / 0.6;
             ease = easeCubicInOut subT
         in \<lparr> slmPower = 0, aodPower = 1, x = startX + (endX - startX) * ease, stage = DiagonalTransport \<rparr>)
      else if t < 0.9 then
        (let subT = (t - 0.75) / 0.15
         in \<lparr> slmPower = subT, aodPower = 1 - subT, x = endX, stage = HandoverAodToSlm \<rparr>)
      else
        \<lparr> slmPower = 1, aodPower = 0, x = startX, stage = Resetting \<rparr>)"

text \<open>
  \<open>animate\<close> itself. The closure variable \<open>startTime\<close> is passed in and returned; the first
  frame sets it (\<open>if (!startTime)\<close>). \<open>jsRem\<close> is the remainder operator \<open>%\<close>, whose
  quotient is truncated towards zero.
\<close>

definition totalDuration :: real where "totalDuration = 8000"

definition jsRem :: "real \<Rightarrow> real \<Rightarrow> real" where
  "jsRem a b = (let q = a / b in a - b * of_int (if 0 \<le> q then \<lfloor>q\<rfloor> else \<lceil>q\<rceil>))"

definition animate :: "real \<Rightarrow> real \<Rightarrow> real \<times> transportState" where
  "animate startTime timestamp =
     (let startTime1 = (if startTime = 0 then timestamp else startTime);
          elapsed = jsRem (timestamp - startTime1) totalDuration;
          t = elapsed / totalDuration
      in (startTime1, frame t))"

text \<open>
  The atom is drawn at \<open>translate(x, yPos)\<close>.
\<close>

definition atomTranslate :: "real \<Rightarrow> real \<times> real" where
  "atomTranslate t = (x (frame t), yPos)"

text \<open>
  The two polylines of the intensity graph, rebuilt in every frame: sample \<open>i\<close> is at
  \<open>gt = i / graphPoints\<close> and holds the abscissa \<open>gt * 700\<close> and the ordinate
  \<open>100 - amplitude * 90\<close>. \<open>graphPowers\<close> is the pair \<open>(gpS, gpA)\<close> of the loop body.
\<close>

definition graphPoints :: nat where "graphPoints = 100"

definition graphPowers :: "real \<Rightarrow> real \<times> real" where
  "graphPowers gt =
     (if gt < 0.15 then (1 - gt / 0.15, gt / 0.15)
      else if gt < 0.75 then (0, 1)
      else if gt < 0.9 then ((gt - 0.75) / 0.15, 1 - (gt - 0.75) / 0.15)
      else (0, 0))"

definition dataSLM :: "(real \<times> real) list" where
  "dataSLM = map (\<lambda>i. let gt = real i / real graphPoints; gpS = fst (graphPowers gt)
                       in (gt * 700, 100 - gpS * 90)) [0 ..< graphPoints]"

definition dataAOD :: "(real \<times> real) list" where
  "dataAOD = map (\<lambda>i. let gt = real i / real graphPoints; gpA = snd (graphPowers gt)
                       in (gt * 700, 100 - gpA * 90)) [0 ..< graphPoints]"

text \<open>
  The inset of the component draws two fixed paths, given as SVG path data:
  \<open>M 20 130 L 130 130 L 130 20\<close> and \<open>M 20 130 L 130 20\<close>. A segment of a path joins two
  consecutive points; \<open>oneAxis\<close> holds of a segment that changes at most one coordinate.
\<close>

datatype pathCmd = MoveTo real real | LineTo real real

definition pathStraight :: "pathCmd list" where
  "pathStraight = [MoveTo 20 130, LineTo 130 130, LineTo 130 20]"

definition pathDiagonal :: "pathCmd list" where
  "pathDiagonal = [MoveTo 20 130, LineTo 130 20]"

fun cmdPoint :: "pathCmd \<Rightarrow> real \<times> real" where
  "cmdPoint (MoveTo px py) = (px, py)"
| "cmdPoint (LineTo px py) = (px, py)"

definition pathSegments :: "pathCmd list \<Rightarrow> ((real \<times> real) \<times> (real \<times> real)) list" where
  "pathSegments p = zip (map cmdPoint p) (tl (map cmdPoint p))"

definition oneAxis :: "(real \<times> real) \<times> (real \<times> real) \<Rightarrow> bool" where
  "oneAxis seg = (fst (fst seg) = fst (snd seg) \<or> snd (fst seg) = snd (snd seg))"

text \<open>
  The position of a stage label in the cycle.
\<close>

definition stageRank :: "stageLabel \<Rightarrow> nat" where
  "stageRank s = (case s of HandoverSlmToAod \<Rightarrow> 0 | DiagonalTransport \<Rightarrow> 1 | HandoverAodToSlm \<Rightarrow> 2 | Resetting \<Rightarrow> 3)"

section \<open>The rotation preserves the norm\<close>

lemma rodrigues_poly:
  fixes a b c s x y z :: real
  assumes "a * a + b * b = 1" "c * c + s * s = 1"
  shows "(x * c + (- b * y) * s + a * (x * a + z * b) * (1 - c)) * (x * c + (- b * y) * s + a * (x * a + z * b) * (1 - c))
       + (y * c + (b * x - a * z) * s + 0) * (y * c + (b * x - a * z) * s + 0)
       + (z * c + (a * y) * s + b * (x * a + z * b) * (1 - c)) * (z * c + (a * y) * s + b * (x * a + z * b) * (1 - c))
       = x * x + y * y + z * z"
  using assms by algebra

lemma normSq_rotate: "normSq (rotate v a th) = normSq v"
proof -
  have A: "cos a * cos a + sin a * sin a = 1" and T: "cos th * cos th + sin th * sin th = 1"
    using sin_cos_squared_add3[of a] sin_cos_squared_add3[of th] by (simp_all add: algebra_simps)
  show ?thesis
    using rodrigues_poly[OF A T, of "vx v" "vy v" "vz v"]
    by (simp add: normSq_def rotate_def Let_def)
qed

lemma vnorm_startVec: "vnorm startVec = radius"
  by (simp add: vnorm_def normSq_def startVec_def radius_def flip: power2_eq_square)

text \<open>
  Claim C5. Over the reals, \<open>rotate\<close> preserves the Euclidean norm of every vector, for
  every axis angle and rotation angle; so every vector rotated from the start vector has
  norm \<open>radius\<close>.
\<close>

theorem C5_rotate_preserves_norm:
  "vnorm (rotate v axisAngle theta) = vnorm v \<and> vnorm (rotate startVec axisAngle theta) = radius"
  by (simp add: vnorm_def normSq_rotate flip: vnorm_startVec)

section \<open>End points of the two trajectories\<close>

lemma simpleLoop_snoc:
  "simpleLoop totalAngle (xs @ [i]) st =
     (rotate startVec 0 (totalAngle * (real i / real simpleSteps)),
      snd (simpleLoop totalAngle xs st) @ [project (vx (fst (simpleLoop totalAngle xs st))) (vy (fst (simpleLoop totalAngle xs st))) (vz (fst (simpleLoop totalAngle xs st)))])"
proof (induction xs arbitrary: st)
  case Nil
  show ?case by (cases st) simp
next
  case (Cons a xs)
  show ?case by (cases st) (simp add: Cons.IH)
qed

lemma upt_last_two: "[0 ..< Suc (Suc n)] = ([0 ..< n] @ [n]) @ [Suc n]"
  by simp

lemma endSimple_eq:
  "endSimple e = (let v = rotate startVec 0 (simpleTotalAngle e * (19 / 20)) in project (vx v) (vy v) (vz v))"
proof -
  let ?T = "simpleTotalAngle e"
  let ?v = "rotate startVec 0 (?T * (real 19 / real simpleSteps))"
  have idx: "[0 ..< simpleSteps + 1] = ([0 ..< 19] @ [19]) @ [20]"
    using upt_last_two [of 19] by (simp add: simpleSteps_def)
  have "endSimple e = last (snd (simpleLoop ?T (([0 ..< 19] @ [19]) @ [20]) (startVec, [])))"
    by (simp only: endSimple_def simplePoints_def idx)
  also have "\<dots> = project (vx ?v) (vy ?v) (vz ?v)"
    by (simp only: simpleLoop_snoc snd_conv fst_conv last_snoc)
  finally show ?thesis
    by (simp add: simpleSteps_def Let_def)
qed

lemma endSimple_simpleEndVec:
  "endSimple e = project (vx (simpleEndVec e)) (vy (simpleEndVec e)) (vz (simpleEndVec e))"
  by (simp add: endSimple_eq simpleEndVec_def simpleSteps_def Let_def)

lemma addPathLoop_snoc:
  "addPathLoop steps angle axisPhase start (xs @ [i]) st =
     (rotate start axisPhase (angle * (real i / real steps)),
      snd (addPathLoop steps angle axisPhase start xs st)
        @ [project (vx (rotate start axisPhase (angle * (real i / real steps))))
                   (vy (rotate start axisPhase (angle * (real i / real steps))))
                   (vz (rotate start axisPhase (angle * (real i / real steps))))])"
proof (induction xs arbitrary: st)
  case Nil
  show ?case by (cases st) (simp add: Let_def)
next
  case (Cons a xs)
  show ?case by (cases st) (simp add: Cons.IH Let_def)
qed

lemma addPath_Suc:
  "addPath (Suc n) angle axisPhase start pts =
     (rotate start axisPhase angle,
      snd (addPathLoop (Suc n) angle axisPhase start [1 ..< Suc n] (start, pts))
        @ [project (vx (rotate start axisPhase angle)) (vy (rotate start axisPhase angle)) (vz (rotate start axisPhase angle))])"
proof -
  have "[1 ..< Suc n + 1] = [1 ..< Suc n] @ [Suc n]" by simp
  then show ?thesis
    unfolding addPath_def by (simp only: addPathLoop_snoc) simp
qed

lemma scrofulous_fst:
  "fst (scrofulous e) =
     rotate (rotate (rotate startVec (60 * (pi / 180)) (180 * (pi / 180) * (1 + e)))
                    (300 * (pi / 180)) (360 * (pi / 180) * (1 + e)))
            (60 * (pi / 180)) (180 * (pi / 180) * (1 + e))"
proof -
  have n: "(15::nat) = Suc 14" "(25::nat) = Suc 24" by simp_all
  show ?thesis
    unfolding scrofulous_def Let_def n addPath_Suc by (simp add: split_def)
qed

lemma endScrof_eq:
  "endScrof e = (let v = fst (scrofulous e) in project (vx v) (vy v) (vz v))"
proof -
  have n: "(15::nat) = Suc 14" "(25::nat) = Suc 24" by simp_all
  show ?thesis
    unfolding endScrof_def scrofulous_def Let_def n addPath_Suc by (simp add: split_def)
qed

lemma pi_ge_three: "3 \<le> pi"
  using sin_x_le_x [of "pi / 6"] by (simp add: sin_30)

lemma screen_y_scrof: "cy (project 0 (- radius) 0) \<noteq> cy (project 0 radius 0)"
proof -
  have "0 < cos (4 / 10 :: real)"
    using pi_ge_three by (intro cos_gt_zero_pi) simp_all
  then show ?thesis
    by (simp add: project_def radius_def)
qed

lemma rotate_pole_pi: "rotate \<lparr> vx = 0, vy = y, vz = 0 \<rparr> a pi = \<lparr> vx = 0, vy = - y, vz = 0 \<rparr>"
  by (simp add: rotate_def Let_def)

lemma rotate_2pi: "rotate v a (2 * pi) = v"
  by (simp add: rotate_def Let_def)

text \<open>
  Claim C1. At calibration error 0 the three legs are a half turn, a full turn and a half
  turn: the first leg reaches the target pole, the second returns to it, and the third goes
  back to the start. The composite end point is the start vector \<open>(0, - radius, 0)\<close>, at
  distance \<open>2 * radius\<close> from the target pole, which is not within 5 percent of the radius;
  the end marker is drawn at the projection of the start pole, not of the target pole.
\<close>

theorem C1_composite_returns_to_start:
  "fst (scrofulous 0) = startVec
   \<and> endScrof 0 = project 0 (- radius) 0
   \<and> endScrof 0 \<noteq> project 0 radius 0
   \<and> dist3 (fst (scrofulous 0)) targetVec = 2 * radius
   \<and> \<not> dist3 (fst (scrofulous 0)) targetVec < 0.05 * radius"
proof -
  have e: "fst (scrofulous 0) = startVec"
    by (simp add: scrofulous_fst startVec_def rotate_pole_pi rotate_2pi)
  have d: "dist3 startVec targetVec = 2 * radius"
    by (simp add: dist3_def startVec_def targetVec_def radius_def real_sqrt_eq_iff)
  have p: "endScrof 0 = project 0 (- radius) 0"
    by (simp add: endScrof_eq e Let_def) (simp add: startVec_def)
  have q: "project 0 (- radius) 0 \<noteq> project 0 radius 0"
    using screen_y_scrof by auto
  have far: "\<not> 2 * radius < 0.05 * radius"
    by (simp add: radius_def)
  show ?thesis
    using e p q d far by simp
qed

lemma rotate_startVec_axis0:
  "rotate startVec 0 theta = \<lparr> vx = 0, vy = - radius * cos theta, vz = - radius * sin theta \<rparr>"
  by (simp add: rotate_def startVec_def Let_def)

lemma pole_dist_poly:
  fixes r c s :: real
  assumes "c\<^sup>2 + s\<^sup>2 = 1"
  shows "(0 - 0)\<^sup>2 + (- r * c - r)\<^sup>2 + (- r * s - 0)\<^sup>2 = 2 * r\<^sup>2 * (1 + c)"
proof -
  have "(- r * c - r)\<^sup>2 + (- r * s)\<^sup>2 = r\<^sup>2 * (c\<^sup>2 + s\<^sup>2) + r\<^sup>2 * (1 + 2 * c)"
    by (simp add: power2_eq_square algebra_simps)
  also have "\<dots> = r\<^sup>2 * 1 + r\<^sup>2 * (1 + 2 * c)"
    by (simp only: assms)
  also have "\<dots> = 2 * r\<^sup>2 * (1 + c)"
    by (simp add: algebra_simps)
  finally show ?thesis
    by simp
qed

lemma dist3_simple_sq:
  "(dist3 (rotate startVec 0 theta) targetVec)\<^sup>2 = 2 * radius\<^sup>2 * (1 + cos theta)"
proof -
  have "(dist3 (rotate startVec 0 theta) targetVec)\<^sup>2
          = (0 - 0)\<^sup>2 + (- radius * cos theta - radius)\<^sup>2 + (- radius * sin theta - 0)\<^sup>2"
    by (simp add: dist3_def rotate_startVec_axis0 targetVec_def)
  also have "\<dots> = 2 * radius\<^sup>2 * (1 + cos theta)"
    by (rule pole_dist_poly) simp
  finally show ?thesis .
qed

lemma dist3_nonneg: "0 \<le> dist3 a b"
  by (simp add: dist3_def)

lemma cos_small_bound: "cos (3 / 20 :: real) \<le> 98878 / 100000"
proof -
  obtain t :: real where
    t: "cos (3 / 20) = (\<Sum>m<4. cos_coeff m * (3 / 20) ^ m) + (cos (t + 1 / 2 * real 4 * pi) / fact 4) * (3 / 20) ^ 4"
    using Maclaurin_cos_expansion [of "3 / 20" 4] by blast
  define r where "r = cos (t + 1 / 2 * real 4 * pi)"
  have r: "r \<le> 1"
    unfolding r_def by (rule cos_le_one)
  have "cos (3 / 20) = 1 - (3 / 20)\<^sup>2 / 2 + (r / 24) * (3 / 20) ^ 4"
    unfolding r_def by (subst t) (simp add: cos_coeff_def lessThan_nat_numeral fact_numeral)
  with r show ?thesis
    by (simp add: power2_eq_square power4_eq_xxxx)
qed

lemma screen_x_simple: "cx (endSimple 0) \<noteq> cx (project 0 radius 0)"
proof -
  have "0 < sin (pi / 20)"
    by (intro sin_gt_zero) simp_all
  moreover have "0 < sin (1 / 2 :: real)"
    using pi_ge_three by (intro sin_gt_zero) simp_all
  moreover have "sin (pi * 19 / 20) = sin (pi / 20)"
    using sin_pi_minus [of "pi / 20"] by (simp add: field_simps)
  ultimately show ?thesis
    by (simp add: endSimple_eq simpleTotalAngle_def Let_def rotate_startVec_axis0 project_def radius_def)
qed

text \<open>
  Claim C2. The last point of the single-pulse trajectory is the projection of the start
  vector rotated by 19/20 of the total angle, because the loop pushes before it rotates. At
  calibration error 0 that vector is the start vector rotated by \<open>pi * (19 / 20)\<close>: the
  last point is not the projection of the target pole, the vector is more than 17 units
  away from the target pole, and farther from it than the vector of the last point at
  calibration error 1/20.
\<close>

theorem C2_single_pulse_last_point:
  "endSimple 0 = project (vx (simpleEndVec 0)) (vy (simpleEndVec 0)) (vz (simpleEndVec 0))
   \<and> endSimple (1 / 20)
       = project (vx (simpleEndVec (1 / 20))) (vy (simpleEndVec (1 / 20))) (vz (simpleEndVec (1 / 20)))
   \<and> simpleEndVec 0 = rotate startVec 0 (pi * (19 / 20))
   \<and> endSimple 0 \<noteq> project 0 radius 0
   \<and> 17 < dist3 (simpleEndVec 0) targetVec
   \<and> dist3 (simpleEndVec (1 / 20)) targetVec < dist3 (simpleEndVec 0) targetVec"
proof -
  have v0: "simpleEndVec 0 = rotate startVec 0 (pi * (19 / 20))"
    by (simp add: simpleEndVec_def simpleTotalAngle_def simpleSteps_def)
  have "pi * (1 + 1 / 20) * (real (20 - 1) / real 20) = pi * (399 / 400)"
    by simp
  then have v1: "simpleEndVec (1 / 20) = rotate startVec 0 (pi * (399 / 400))"
    by (simp only: simpleEndVec_def simpleTotalAngle_def simpleSteps_def)
  have p: "endSimple 0 = project (vx (simpleEndVec 0)) (vy (simpleEndVec 0)) (vz (simpleEndVec 0))"
    by (rule endSimple_simpleEndVec)
  have p1: "endSimple (1 / 20)
       = project (vx (simpleEndVec (1 / 20))) (vy (simpleEndVec (1 / 20))) (vz (simpleEndVec (1 / 20)))"
    by (rule endSimple_simpleEndVec)
  have c0: "cos (pi * (19 / 20)) = - cos (pi / 20)"
    using cos_pi_minus [of "pi / 20"] by (simp add: field_simps)
  have "cos (pi / 20) \<le> cos (3 / 20 :: real)"
    using pi_ge_three by (intro cos_monotone_0_pi_le) simp_all
  then have c1: "cos (pi / 20) \<le> 98878 / 100000"
    using cos_small_bound by linarith
  have "2 * radius\<^sup>2 * (1 + cos (pi * (19 / 20))) = 28800 * (1 - cos (pi / 20))"
    by (simp only: c0 radius_def) simp
  moreover have "17\<^sup>2 < 28800 * (1 - cos (pi / 20))"
    using c1 by simp
  ultimately have "17\<^sup>2 < 2 * radius\<^sup>2 * (1 + cos (pi * (19 / 20)))"
    by (simp only:)
  then have "17\<^sup>2 < (dist3 (simpleEndVec 0) targetVec)\<^sup>2"
    by (simp only: v0 dist3_simple_sq)
  then have far: "17 < dist3 (simpleEndVec 0) targetVec"
    by (rule power2_less_imp_less) (rule dist3_nonneg)
  have "cos (pi * (399 / 400)) < cos (pi * (19 / 20))"
    using pi_gt_zero by (intro cos_monotone_0_pi) simp_all
  then have "(dist3 (simpleEndVec (1 / 20)) targetVec)\<^sup>2 < (dist3 (simpleEndVec 0) targetVec)\<^sup>2"
    by (simp add: v0 v1 dist3_simple_sq radius_def)
  then have closer: "dist3 (simpleEndVec (1 / 20)) targetVec < dist3 (simpleEndVec 0) targetVec"
    by (rule power2_less_imp_less) (rule dist3_nonneg)
  have off: "endSimple 0 \<noteq> project 0 radius 0"
    using screen_x_simple by auto
  show ?thesis
    using p p1 v0 off far closer by blast
qed

section \<open>Decay curve\<close>


lemma toFixed_mono: "a \<le> b \<Longrightarrow> toFixed d a \<le> toFixed d b"
proof -
  assume ab: "a \<le> b"
  have pos: "(0::real) < 10 ^ d" by simp
  have fl: "u \<le> w \<Longrightarrow> real_of_int \<lfloor>u * 10 ^ d + 1 / 2\<rfloor> / 10 ^ d \<le> real_of_int \<lfloor>w * 10 ^ d + 1 / 2\<rfloor> / 10 ^ d" for u w :: real
    by (intro divide_right_mono) (simp_all add: floor_mono)
  have nn: "0 \<le> real_of_int \<lfloor>w * 10 ^ d + 1 / 2\<rfloor> / 10 ^ d" if "0 \<le> w" for w :: real
    using that by simp
  consider "b < 0" | "a < 0" "0 \<le> b" | "0 \<le> a"
    by linarith
  then show ?thesis
  proof cases
    case 1
    then show ?thesis using ab fl [of "- b" "- a"] by (simp add: toFixed_def)
  next
    case 2
    define u v where "u = real_of_int \<lfloor>- a * 10 ^ d + 1 / 2\<rfloor> / 10 ^ d"
      and "v = real_of_int \<lfloor>b * 10 ^ d + 1 / 2\<rfloor> / 10 ^ d"
    have "0 \<le> u"
      unfolding u_def using 2(1) by (intro nn) simp
    moreover have "0 \<le> v"
      unfolding v_def using 2(2) by (rule nn)
    moreover have "toFixed d a = - u" and "toFixed d b = v"
      using 2 by (simp_all add: toFixed_def u_def v_def)
    ultimately show ?thesis by simp
  next
    case 3
    then show ?thesis using ab fl [of a b] by (simp add: toFixed_def)
  qed
qed



lemma finite_val_Fin [simp]: "finite_val (Fin r) r"
  by (simp add: finite_val_def)





lemma toFixedJ_nonneg: "0 \<le> v \<Longrightarrow> toFixedJ d (Fin v) = Fin (toFixed d v)"
  by simp










section \<open>Randomised benchmarking curves\<close>

lemma avgProbStd_pow: "avgProbStd m = 0.5 + 0.5 * 0.9985 ^ m"
  by (simp add: avgProbStd_def js_pow_def p_standard_def powr_realpow)

lemma avgProbIrb_pow: "avgProbIrb m = 0.5 + 0.5 * (0.9985 * 0.9995) ^ m"
  by (simp add: avgProbIrb_def js_pow_def p_irb_def powr_realpow)

lemma fitted_curve_factor:
  fixes f :: real
  assumes "0 \<le> f" and "f \<le> 1"
  shows "0.5 + 0.5 * (p_standard * f) ^ m \<le> 0.5 + 0.5 * p_standard ^ m"
proof -
  have "p_standard * f \<le> p_standard * 1"
    using assms(2) by (intro mult_left_mono) (simp_all add: p_standard_def)
  then have "(p_standard * f) ^ m \<le> p_standard ^ m"
    using assms(1) by (intro power_mono) (simp_all add: p_standard_def)
  then show ?thesis
    by simp
qed

text \<open>
  Claim C9. At every sequence length of the list the value of the interleaved fitted curve,
  \<open>0.5 + 0.5 * (p_standard * 0.9995) ^ m\<close>, is at most the value of the baseline fitted
  curve, \<open>0.5 + 0.5 * p_standard ^ m\<close>; the same holds of the two rounded values that are
  stored in the record.
\<close>

theorem C9_irb_fit_below_standard:
  assumes "m \<in> set lengths"
  shows "avgProbIrb m = 0.5 + 0.5 * (p_standard * 0.9995) ^ m
       \<and> avgProbStd m = 0.5 + 0.5 * p_standard ^ m
       \<and> avgProbIrb m \<le> avgProbStd m
       \<and> toFixed 4 (avgProbIrb m) \<le> toFixed 4 (avgProbStd m)"
proof -
  have i: "avgProbIrb m = 0.5 + 0.5 * (p_standard * 0.9995) ^ m"
    by (simp add: avgProbIrb_pow p_standard_def)
  have s: "avgProbStd m = 0.5 + 0.5 * p_standard ^ m"
    by (simp add: avgProbStd_pow p_standard_def)
  have le: "avgProbIrb m \<le> avgProbStd m"
    unfolding i s by (rule fitted_curve_factor) simp_all
  then have "toFixed 4 (avgProbIrb m) \<le> toFixed 4 (avgProbStd m)"
    by (rule toFixed_mono)
  with i s le show ?thesis
    by blast
qed

theorem C9_irb_fit_below_standard_witness:
  "(500::nat) \<in> set lengths
   \<and> avgProbIrb 500 = 0.5 + 0.5 * (p_standard * 0.9995) ^ 500
   \<and> avgProbStd 500 = 0.5 + 0.5 * p_standard ^ 500
   \<and> avgProbIrb 500 \<le> avgProbStd 500
   \<and> toFixed 4 (avgProbIrb 500) \<le> toFixed 4 (avgProbStd 500)"
proof -
  have m: "(500::nat) \<in> set lengths"
    by (simp add: lengths_def)
  show ?thesis
    using m C9_irb_fit_below_standard [OF m] by blast
qed

lemma rbStep_split:
  "rbStep mode random m (dataV, drawn) = (dataV @ rbBlock mode random m drawn, drawn + sequencesPerLength)"
  by (simp add: rbStep_def rbBlock_def Let_def)

lemma fold_rbStep:
  "fst (fold (rbStep mode random) ms (dataV, drawn))
     = dataV @ fst (fold (rbStep mode random) ms ([], drawn))"
proof (induction ms arbitrary: dataV drawn)
  case Nil
  show ?case by simp
next
  case (Cons m ms)
  let ?B = "rbBlock mode random m drawn"
  let ?k = "drawn + sequencesPerLength"
  have "fst (fold (rbStep mode random) (m # ms) (dataV, drawn))
          = fst (fold (rbStep mode random) ms (dataV @ ?B, ?k))"
    by (simp only: fold_Cons comp_apply rbStep_split)
  also have "\<dots> = (dataV @ ?B) @ fst (fold (rbStep mode random) ms ([], ?k))"
    by (rule Cons.IH)
  also have "\<dots> = dataV @ (?B @ fst (fold (rbStep mode random) ms ([], ?k)))"
    by simp
  also have "?B @ fst (fold (rbStep mode random) ms ([], ?k))
          = fst (fold (rbStep mode random) ms ([] @ ?B, ?k))"
    by (simp only: append_Nil) (rule Cons.IH [symmetric])
  also have "\<dots> = fst (fold (rbStep mode random) (m # ms) ([], drawn))"
    by (simp only: fold_Cons comp_apply rbStep_split)
  finally show ?case .
qed

lemma filter_isLine_block: "filter isLine (rbBlock mode random m drawn) = [lineFor mode m]"
  by (simp add: rbBlock_def rbStep_def lineFor_def Let_def filter_map comp_def)

lemma map_len_block: "map len (rbBlock mode random m drawn) = replicate (sequencesPerLength + 1) m"
  by (simp add: rbBlock_def rbStep_def Let_def comp_def map_replicate_const replicate_append_same)

lemma fold_rbStep_Cons:
  "fst (fold (rbStep mode random) (m # ms) ([], drawn))
     = rbBlock mode random m drawn @ fst (fold (rbStep mode random) ms ([], drawn + sequencesPerLength))"
proof -
  have "fst (fold (rbStep mode random) (m # ms) ([], drawn))
          = fst (fold (rbStep mode random) ms ([] @ rbBlock mode random m drawn, drawn + sequencesPerLength))"
    by (simp only: fold_Cons comp_apply rbStep_split)
  then show ?thesis
    by (simp only: append_Nil fold_rbStep [of mode random ms "rbBlock mode random m drawn"])
qed

lemma filter_isLine_fold:
  "filter isLine (fst (fold (rbStep mode random) ms ([], drawn))) = map (lineFor mode) ms"
proof (induction ms arbitrary: drawn)
  case Nil
  show ?case by simp
next
  case (Cons m ms)
  show ?case
    by (simp only: fold_rbStep_Cons filter_append filter_isLine_block Cons.IH) simp
qed

lemma map_len_fold:
  "map len (fst (fold (rbStep mode random) ms ([], drawn)))
     = concat (map (replicate (sequencesPerLength + 1)) ms)"
proof (induction ms arbitrary: drawn)
  case Nil
  show ?case by simp
next
  case (Cons m ms)
  show ?case
    by (simp only: fold_rbStep_Cons map_append map_len_block Cons.IH) simp
qed

lemma sorted_concat_replicate:
  "sorted ms \<Longrightarrow> sorted (concat (map (replicate n) ms))"
  by (induction ms) (auto simp add: sorted_append)

lemma generateRBData_unsorted:
  "generateRBData mode random = fst (fold (rbStep mode random) lengths ([], 0))"
proof -
  have "sorted lengths"
    by (simp add: lengths_def)
  then have "sorted (map len (fst (fold (rbStep mode random) lengths ([], 0))))"
    by (simp only: map_len_fold sorted_concat_replicate)
  then show ?thesis
    unfolding generateRBData_def by (rule sort_key_id_if_sorted)
qed

lemma rb_lines: "filter isLine (generateRBData mode random) = map (lineFor mode) lengths"
  by (simp only: generateRBData_unsorted filter_isLine_fold)

text \<open>
  Claim C10, amended. In both modes and for every stream of draws the fitted-curve records
  of the result are exactly one per sequence length, in the order of the list; the
  \<open>standard_fit\<close> field is \<open>0.5 + 0.5 * 0.9985 ^ m\<close> rounded to four decimals and is the same
  in both modes; the \<open>irb_fit\<close> field is \<open>null\<close> in mode \<open>standard\<close> and a number in
  mode \<open>irb\<close>.
\<close>

theorem C10_standard_fit_mode_independent:
  "filter isLine (generateRBData mode random)
     = map (\<lambda>m. Line m (toFixed 4 (0.5 + 0.5 * 0.9985 ^ m))
                  (if mode = ModeIrb then Some (toFixed 4 (0.5 + 0.5 * (0.9985 * 0.9995) ^ m)) else None))
           lengths
   \<and> map standard_fit (filter isLine (generateRBData ModeStandard random))
       = map standard_fit (filter isLine (generateRBData ModeIrb random'))
   \<and> map irb_fit (filter isLine (generateRBData ModeStandard random)) = map (\<lambda>m. None) lengths
   \<and> map irb_fit (filter isLine (generateRBData ModeIrb random))
       = map (\<lambda>m. Some (toFixed 4 (0.5 + 0.5 * (0.9985 * 0.9995) ^ m))) lengths"
  by (simp add: rb_lines lineFor_def avgProbStd_pow avgProbIrb_pow comp_def)

text \<open>
  The fitted-curve record for length 2 in mode \<open>standard\<close> holds 0.9985, which is not
  \<open>0.5 + 0.5 * 0.9985 ^ 2 = 0.998501125\<close>.
\<close>

theorem C10_standard_fit_rounded_cex:
  "Line 2 (9985 / 10000) None \<in> set (generateRBData ModeStandard (fixedRandom (1 / 2)))
   \<and> (9985 / 10000 :: real) \<noteq> 0.5 + 0.5 * 0.9985 ^ 2"
proof -
  have "lineFor ModeStandard 2 \<in> set (filter isLine (generateRBData ModeStandard (fixedRandom (1 / 2))))"
    by (simp only: rb_lines) (simp add: lengths_def)
  moreover have "lineFor ModeStandard 2 = Line 2 (9985 / 10000) None"
    by (simp add: lineFor_def avgProbStd_pow toFixed_def power2_eq_square)
  ultimately show ?thesis
    by (simp add: power2_eq_square)
qed

section \<open>Phases of the transport cycle\<close>

lemma stage_frame:
  "stage (frame t) = (if t < 0.15 then HandoverSlmToAod else if t < 0.75 then DiagonalTransport
                      else if t < 0.9 then HandoverAodToSlm else Resetting)"
  by (simp add: frame_def Let_def)

text \<open>
  Once \<open>startTime\<close> is set and not later than the timestamp, the cycle time that
  \<open>animate\<close> hands to the frame computation lies in \<open>[0, 1)\<close>.
\<close>

lemma jsRem_range:
  assumes "0 \<le> a" and "0 < b"
  shows "0 \<le> jsRem a b / b \<and> jsRem a b / b < 1"
proof -
  have q: "0 \<le> a / b"
    using assms by simp
  have "jsRem a b / b = a / b - of_int \<lfloor>a / b\<rfloor>"
    using q assms(2) by (simp add: jsRem_def Let_def diff_divide_distrib)
  then show ?thesis
    by simp linarith
qed

lemma animate_cycle_time:
  assumes "startTime \<le> timestamp" and "0 < startTime"
  shows "\<exists>t. 0 \<le> t \<and> t < 1 \<and> animate startTime timestamp = (startTime, frame t)"
proof -
  have "0 \<le> timestamp - startTime"
    using assms(1) by simp
  then have "0 \<le> jsRem (timestamp - startTime) totalDuration / totalDuration
           \<and> jsRem (timestamp - startTime) totalDuration / totalDuration < 1"
    by (rule jsRem_range) (simp add: totalDuration_def)
  then show ?thesis
    using assms(2) by (auto simp add: animate_def Let_def)
qed

text \<open>
  Claim C7. For every cycle time in \<open>[0, 1)\<close> both powers of the frame lie in \<open>[0, 1]\<close>.
\<close>

theorem C7_powers_in_unit_interval:
  assumes "0 \<le> t" and "t < 1"
  shows "0 \<le> slmPower (frame t) \<and> slmPower (frame t) \<le> 1
       \<and> 0 \<le> aodPower (frame t) \<and> aodPower (frame t) \<le> 1"
  using assms by (simp add: frame_def Let_def)

theorem C7_powers_in_unit_interval_witness:
  "(0::real) \<le> 1 / 10 \<and> (1 / 10 :: real) < 1
   \<and> 0 \<le> slmPower (frame (1 / 10)) \<and> slmPower (frame (1 / 10)) \<le> 1
   \<and> 0 \<le> aodPower (frame (1 / 10)) \<and> aodPower (frame (1 / 10)) \<le> 1"
  using C7_powers_in_unit_interval [of "1 / 10"] by simp

text \<open>
  Claim C6. On \<open>[0, 1)\<close> the stage is the start handover exactly on \<open>[0, 0.15)\<close>,
  transport exactly on \<open>[0.15, 0.75)\<close>, the end handover exactly on \<open>[0.75, 0.9)\<close> and
  reset exactly on \<open>[0.9, 1)\<close>; the stage never moves backwards as the time grows, and a
  step of at most 1/10 moves it forward by at most one phase, so no phase is skipped.
\<close>

theorem C6_stage_phases:
  assumes "0 \<le> s" and "s \<le> t" and "t < 1" and "0 < d" and "d \<le> 1 / 10" and "t + d < 1"
  shows "(stage (frame t) = HandoverSlmToAod \<longleftrightarrow> 0 \<le> t \<and> t < 0.15)
       \<and> (stage (frame t) = DiagonalTransport \<longleftrightarrow> 0.15 \<le> t \<and> t < 0.75)
       \<and> (stage (frame t) = HandoverAodToSlm \<longleftrightarrow> 0.75 \<le> t \<and> t < 0.9)
       \<and> (stage (frame t) = Resetting \<longleftrightarrow> 0.9 \<le> t \<and> t < 1)
       \<and> stageRank (stage (frame s)) \<le> stageRank (stage (frame t))
       \<and> stageRank (stage (frame (t + d))) \<le> stageRank (stage (frame t)) + 1"
  using assms by (auto simp add: stage_frame stageRank_def)

theorem C6_stage_phases_witness:
  "(0::real) \<le> 1 / 10 \<and> (1 / 10 :: real) \<le> 7 / 10 \<and> (7 / 10 :: real) < 1 \<and> (0::real) < 1 / 10
   \<and> (1 / 10 :: real) \<le> 1 / 10 \<and> (7 / 10 + 1 / 10 :: real) < 1
   \<and> stage (frame (7 / 10)) = DiagonalTransport
   \<and> stage (frame (1 / 10)) = HandoverSlmToAod
   \<and> stage (frame (7 / 10 + 1 / 10)) = HandoverAodToSlm"
  using C6_stage_phases [of "1 / 10" "7 / 10" "1 / 10"]
  by (simp add: stage_frame)

text \<open>
  Claim C3. At sample 90, the cycle time 0.9 where the reset phase begins, the SLM polyline
  holds amplitude 0 (ordinate 100), while the frame computed at that time has
  \<open>slmPower = 1\<close> (ordinate 10).
\<close>

theorem C3_reset_waveform_differs:
  "dataSLM ! 90 = (630, 100)
   \<and> fst (graphPowers (90 / 100)) = 0
   \<and> slmPower (frame (90 / 100)) = 1
   \<and> fst (graphPowers (90 / 100)) \<noteq> slmPower (frame (90 / 100))
   \<and> 100 - slmPower (frame (90 / 100)) * 90 = 10"
  by (simp add: dataSLM_def graphPoints_def graphPowers_def frame_def Let_def)

text \<open>
  Before the reset phase the SLM polyline agrees with the frame, and the AOD polyline
  agrees with it at every sample.
\<close>

lemma waveform_matches_frame:
  assumes "i < graphPoints"
  shows "dataAOD ! i = (real i / 100 * 700, 100 - aodPower (frame (real i / 100)) * 90)"
    and "i < 90 \<Longrightarrow> dataSLM ! i = (real i / 100 * 700, 100 - slmPower (frame (real i / 100)) * 90)"
  using assms by (auto simp add: dataSLM_def dataAOD_def graphPoints_def graphPowers_def frame_def Let_def)

text \<open>
  Claim C4, amended. The frame has one way to derive the position and no selector: at every
  time of the transport phase the stage is \<open>Diagonal Transport\<close>, the powers are 0 and 1,
  and the atom is at the eased abscissa with the fixed ordinate \<open>yPos\<close>. The sequential and
  the diagonal path are the two fixed polylines of the inset: they share their first and
  last point, every segment of the first changes one coordinate only, and the single
  segment of the second changes both.
\<close>

theorem C4_single_transport_derivation:
  assumes "0.15 \<le> t" and "t < 0.75"
  shows "stage (frame t) = DiagonalTransport
       \<and> slmPower (frame t) = 0 \<and> aodPower (frame t) = 1
       \<and> atomTranslate t = (startX + (endX - startX) * easeCubicInOut ((t - 0.15) / 0.6), yPos)
       \<and> cmdPoint (hd pathStraight) = cmdPoint (hd pathDiagonal)
       \<and> cmdPoint (last pathStraight) = cmdPoint (last pathDiagonal)
       \<and> list_all oneAxis (pathSegments pathStraight)
       \<and> pathSegments pathDiagonal = [((20, 130), (130, 20))]
       \<and> \<not> oneAxis ((20, 130), (130, 20))"
  using assms
  by (simp add: frame_def atomTranslate_def Let_def pathStraight_def pathDiagonal_def
        pathSegments_def oneAxis_def)

theorem C4_single_transport_derivation_witness:
  "(0.15::real) \<le> 45 / 100 \<and> (45 / 100 :: real) < 0.75
   \<and> stage (frame (45 / 100)) = DiagonalTransport
   \<and> slmPower (frame (45 / 100)) = 0 \<and> aodPower (frame (45 / 100)) = 1
   \<and> atomTranslate (45 / 100) = (400, 120)
   \<and> list_all oneAxis (pathSegments pathStraight)
   \<and> \<not> list_all oneAxis (pathSegments pathDiagonal)"
  using C4_single_transport_derivation [of "45 / 100"]
  by (simp add: startX_def endX_def yPos_def easeCubicInOut_def oneAxis_def)

text \<open>
  The atom moves along one axis: its ordinate is 120 at the times 0.15, 0.3, 0.45 and 0.6
  of the transport phase and at the time 0.75, where the end handover begins.
\<close>

theorem C4_position_one_axis_cex:
  "atomTranslate (15 / 100) = (100, 120)
   \<and> atomTranslate (30 / 100) = (275 / 2, 120)
   \<and> atomTranslate (45 / 100) = (400, 120)
   \<and> atomTranslate (60 / 100) = (1325 / 2, 120)
   \<and> atomTranslate (75 / 100) = (700, 120)"
  by (simp add: atomTranslate_def frame_def Let_def startX_def endX_def yPos_def easeCubicInOut_def)

end
